theory Spec2Isabelle
  imports Main
begin

section \<open>Python values and exceptions\<close>

text \<open>
  The profile data handed to the puppet is parsed JSON (\<^verbatim>\<open>Dict[str, Any]\<close>): a value is
  \<^verbatim>\<open>None\<close>, a boolean, an integer, a string, a list or a dictionary with string keys.
  A dictionary is an association list; \<open>map_of\<close> reads it.
\<close>

datatype py = PNone | PBool bool | PInt int | PStr string | PList "py list" | PDict "(string \<times> py) list"

text \<open>
  The exceptions the modelled code can meet. \<open>Exception msg\<close> stands for
  \<^verbatim>\<open>raise Exception(msg)\<close> and for every subclass of \<^verbatim>\<open>Exception\<close> that a collaborator
  raises. \<open>CancelledError\<close> is \<^verbatim>\<open>asyncio.CancelledError\<close>, raised at an awaited call when the
  task is cancelled: it derives from \<^verbatim>\<open>BaseException\<close> and not from \<^verbatim>\<open>Exception\<close>, and
  stands for every exception that does.
\<close>

datatype exn =
  AttributeError | KeyError | IndexError | TypeError | Exception string | CancelledError

text \<open>\<^verbatim>\<open>isinstance(e, Exception)\<close>: what a clause \<^verbatim>\<open>except Exception\<close> catches.\<close>

fun is_exception :: "exn \<Rightarrow> bool" where
  "is_exception CancelledError = False"
| "is_exception _ = True"

text \<open>Truthiness, as \<^verbatim>\<open>if x:\<close> tests it.\<close>

fun truthy :: "py \<Rightarrow> bool" where
  "truthy PNone = False"
| "truthy (PBool b) = b"
| "truthy (PInt i) = (i \<noteq> 0)"
| "truthy (PStr s) = (s \<noteq> [])"
| "truthy (PList xs) = (xs \<noteq> [])"
| "truthy (PDict kvs) = (kvs \<noteq> [])"

text \<open>\<^verbatim>\<open>d.get(k, default)\<close>: an \<^verbatim>\<open>AttributeError\<close> on a value with no \<^verbatim>\<open>get\<close>.\<close>

fun py_get :: "py \<Rightarrow> string \<Rightarrow> py \<Rightarrow> exn + py" where
  "py_get (PDict kvs) k dflt = Inr (case map_of kvs k of None \<Rightarrow> dflt | Some v \<Rightarrow> v)"
| "py_get _ k dflt = Inl AttributeError"

text \<open>\<^verbatim>\<open>x[k]\<close> with a string key \<open>k\<close>.\<close>

fun py_getitem :: "py \<Rightarrow> string \<Rightarrow> exn + py" where
  "py_getitem (PDict kvs) k = (case map_of kvs k of None \<Rightarrow> Inl KeyError | Some v \<Rightarrow> Inr v)"
| "py_getitem _ k = Inl TypeError"

text \<open>\<^verbatim>\<open>x[0]\<close>.\<close>

fun py_index0 :: "py \<Rightarrow> exn + py" where
  "py_index0 (PList []) = Inl IndexError"
| "py_index0 (PList (x # xs)) = Inr x"
| "py_index0 (PStr []) = Inl IndexError"
| "py_index0 (PStr (c # cs)) = Inr (PStr [c])"
| "py_index0 (PDict kvs) = Inl KeyError"
| "py_index0 _ = Inl TypeError"

section \<open>The photo id pattern\<close>

text \<open>
  \<^verbatim>\<open>photo_id_re = re.compile(r"https://.*?/image/(.*?)/profile-.*?")\<close>.
  The pattern is a sequence of literals and lazy \<^verbatim>\<open>.*?\<close> items, one of them a group.
  \<open>re_match_here\<close> is the backtracking matcher of \<^verbatim>\<open>re.match\<close> on such a sequence: it is
  anchored at the start of the string, need not reach its end, a lazy item tries the
  shortest extension first, and \<^verbatim>\<open>.\<close> matches every character but a newline. The result
  is the list of captured groups.
\<close>

datatype re_item = Lit string | LazyAny | LazyAnyGroup

function re_match_here :: "re_item list \<Rightarrow> string \<Rightarrow> string list option"
  and re_lazy :: "bool \<Rightarrow> re_item list \<Rightarrow> string \<Rightarrow> string \<Rightarrow> string list option"
where
  "re_match_here [] s = Some []"
| "re_match_here (Lit l # rs) s =
     (if take (length l) s = l then re_match_here rs (drop (length l) s) else None)"
| "re_match_here (LazyAny # rs) s = re_lazy False rs [] s"
| "re_match_here (LazyAnyGroup # rs) s = re_lazy True rs [] s"
| "re_lazy cap rs acc s =
     (case re_match_here rs s of
        Some gs \<Rightarrow> Some (if cap then rev acc # gs else gs)
      | None \<Rightarrow>
          (case s of
             [] \<Rightarrow> None
           | c # cs \<Rightarrow> if c = CHR 0x0A then None else re_lazy cap rs (c # acc) cs))"
  by pat_completeness auto
termination
  by (relation "measures [
        (\<lambda>x. case x of Inl (rs, s) \<Rightarrow> 2 * length rs | Inr (cap, rs, acc, s) \<Rightarrow> 2 * length rs + 1),
        (\<lambda>x. case x of Inl (rs, s) \<Rightarrow> length s | Inr (cap, rs, acc, s) \<Rightarrow> length s)]") auto

definition photo_id_re :: "re_item list" where
  "photo_id_re = [Lit ''https://'', LazyAny, Lit ''/image/'', LazyAnyGroup, Lit ''/profile-'', LazyAny]"

text \<open>\<^verbatim>\<open>photo_id_re.match(url)\<close>, then \<^verbatim>\<open>match.group(1)\<close>.\<close>

definition photo_id_match :: "string \<Rightarrow> string option" where
  "photo_id_match url =
     (case re_match_here photo_id_re url of Some (g # gs) \<Rightarrow> Some g | _ \<Rightarrow> None)"

section \<open>Configuration and the identifier template\<close>

text \<open>
  A display name template is a format string over the names \<^verbatim>\<open>displayname\<close>,
  \<^verbatim>\<open>name\<close>, \<^verbatim>\<open>first_name\<close> and \<^verbatim>\<open>last_name\<close>; it is kept here as its parts, literal text
  and plain replacement fields \<^verbatim>\<open>{key}\<close>.
\<close>

datatype tpart = TLit string | TField string

text \<open>
  The configuration read by \<^verbatim>\<open>init_cls\<close>. \<open>username_template\<close> is the configured pattern
  as the text before and the text after its one placeholder \<^verbatim>\<open>{userid}\<close>.
  \<open>str_other\<close> is the interpreter's \<^verbatim>\<open>str()\<close> on booleans, integers, lists and
  dictionaries, which the model takes as given.
\<close>

record config =
  homeserver_domain :: string
  username_template :: "string \<times> string"
  displayname_preference :: "string list"
  displayname_template :: "tpart list"
  str_other :: "py \<Rightarrow> string"

text \<open>
  Modelled from the spec: \<^verbatim>\<open>SimpleTemplate\<close> (imported from
  \<^verbatim>\<open>mautrix.util.simple_template\<close>) is not among the source files. The identifier mapper
  "formats a local identifier using a configured template (prefix + templated body +
  homeserver-domain suffix)" and "parses the template in reverse; returns none if the
  identifier does not match the expected shape (e.g., wrong domain or prefix)". A template
  is its full prefix and its full suffix; \<open>parse\<close> compares both ends of the identifier and
  returns what lies between them, with the slices of Python.
\<close>

record simple_template =
  st_prefix :: string
  st_suffix :: string

text \<open>\<^verbatim>\<open>s[i:j]\<close>: a negative index counts from the end, and both are clamped.\<close>

definition py_slice :: "string \<Rightarrow> int \<Rightarrow> int \<Rightarrow> string" where
  "py_slice s i j =
     (let n = int (length s);
          a = (if i < 0 then max 0 (n + i) else min i n);
          b = (if j < 0 then max 0 (n + j) else min j n)
      in take (nat (b - a)) (drop (nat a) s))"

text \<open>
  Modelled from the spec: \<^verbatim>\<open>SimpleTemplate.format_full\<close>, "prefix + templated body +
  homeserver-domain suffix".
\<close>

definition format_full :: "simple_template \<Rightarrow> string \<Rightarrow> string" where
  "format_full t arg = st_prefix t @ arg @ st_suffix t"

text \<open>
  Modelled from the spec: \<^verbatim>\<open>SimpleTemplate.parse\<close>, which "parses the template in reverse;
  returns none if the identifier does not match the expected shape (e.g., wrong domain or
  prefix)".
\<close>

definition parse :: "simple_template \<Rightarrow> string \<Rightarrow> string option" where
  "parse t val =
     (let prefix_ok = (take (length (st_prefix t)) val = st_prefix t);
          has_suffix = (0 < length (st_suffix t));
          suffix_ok = (\<not> has_suffix \<or> drop (length val - length (st_suffix t)) val = st_suffix t)
      in if prefix_ok \<and> suffix_ok
         then Some (py_slice val (int (length (st_prefix t)))
                      (if has_suffix then - int (length (st_suffix t)) else int (length val)))
         else None)"

text \<open>
  \<^verbatim>\<open>cls.mxid_template = SimpleTemplate(config["bridge.username_template"], "userid",
  prefix="@", suffix=f":{Puppet.hs_domain}", type=str)\<close>
\<close>

definition mxid_template :: "config \<Rightarrow> simple_template" where
  "mxid_template cfg =
     \<lparr>st_prefix = ''@'' @ fst (username_template cfg),
      st_suffix = snd (username_template cfg) @ '':'' @ homeserver_domain cfg\<rparr>"

definition get_id_from_mxid :: "config \<Rightarrow> string \<Rightarrow> string option" where
  "get_id_from_mxid cfg mxid = parse (mxid_template cfg) mxid"

definition get_mxid_from_id :: "config \<Rightarrow> string \<Rightarrow> string" where
  "get_mxid_from_id cfg li_member_urn = format_full (mxid_template cfg) li_member_urn"

text \<open>A configuration to evaluate the definitions on.\<close>

definition cfg0 :: config where
  "cfg0 = \<lparr>homeserver_domain = ''example.org'', username_template = (''linkedin_'', ''''),
      displayname_preference = [''displayname'', ''name'', ''first_name''],
      displayname_template = [TField ''displayname'', TLit '' (LinkedIn)''],
      str_other = (\<lambda>v. ''?'')\<rparr>"

section \<open>The puppet, its collaborators and the effects of a call\<close>

text \<open>
  The fields of a \<^verbatim>\<open>Puppet\<close>: the nine columns of its database row and the transient
  \<^verbatim>\<open>_last_info_sync\<close>. A timestamp is a number.
\<close>

record puppet =
  li_member_urn :: string
  name :: "string option"
  photo_id :: "string option"
  photo_mxc :: "string option"
  name_set :: bool
  avatar_set :: bool
  is_registered :: bool
  custom_mxid :: "string option"
  next_batch :: "string option"
  last_info_sync :: "nat option"

text \<open>The \<^verbatim>\<open>source\<close> argument of \<^verbatim>\<open>update_info\<close>: a user, of which only the key is read.\<close>

datatype user = User (user_li_member_urn: string)

text \<open>What \<^verbatim>\<open>requests.get\<close> returns: the \<^verbatim>\<open>ok\<close> flag and the body.\<close>

record response =
  ok :: bool
  content :: string

text \<open>
  The collaborators of one call, each a function from its arguments to an exception raised
  (\<open>Inl\<close>) or a value returned (\<open>Inr\<close>): the clock, the ghost's intent
  (\<^verbatim>\<open>set_displayname\<close>, \<^verbatim>\<open>set_avatar_url\<close>, \<^verbatim>\<open>upload_media\<close>), the HTTP client, the MIME
  sniffer and the row's \<^verbatim>\<open>save\<close>.
\<close>

record env =
  now :: nat
  set_displayname :: "string \<Rightarrow> exn + unit"
  requests_get :: "string \<Rightarrow> exn + response"
  magic_from_buffer :: "string \<Rightarrow> exn + string"
  upload_media :: "string \<Rightarrow> string \<Rightarrow> exn + string"
  set_avatar_url :: "string \<Rightarrow> exn + unit"
  save :: "puppet \<Rightarrow> exn + unit"

text \<open>Every call to a collaborator and every logged exception, in order.\<close>

datatype event =
    SetDisplayname string
  | HttpGet string
  | UploadMedia string string
  | SetAvatarUrl string
  | Save puppet
  | LogException string

text \<open>The state a method runs on: the puppet itself and the effects so far.\<close>

record world =
  self :: puppet
  effects :: "event list"

section \<open>The display name\<close>

text \<open>\<^verbatim>\<open>f"{v}"\<close> and \<^verbatim>\<open>"{key}".format(key=v)\<close>: \<^verbatim>\<open>str(v)\<close>.\<close>

definition py_str :: "config \<Rightarrow> py \<Rightarrow> string" where
  "py_str cfg v = (case v of PNone \<Rightarrow> ''None'' | PStr s \<Rightarrow> s | _ \<Rightarrow> str_other cfg v)"

text \<open>The dictionary built by \<^verbatim>\<open>_get_displayname\<close> from the two names of the profile.\<close>

definition displayname_fields :: "config \<Rightarrow> py \<Rightarrow> py \<Rightarrow> (string \<rightharpoonup> py)" where
  "displayname_fields cfg firstName lastName =
     [''displayname'' \<mapsto> PNone,
      ''name'' \<mapsto> PStr (py_str cfg firstName @ '' '' @ py_str cfg lastName),
      ''first_name'' \<mapsto> firstName,
      ''last_name'' \<mapsto> lastName]"

text \<open>\<^verbatim>\<open>info.get(preference)\<close> on that dictionary: \<^verbatim>\<open>None\<close> for a missing key.\<close>

definition dict_get :: "(string \<rightharpoonup> py) \<Rightarrow> string \<Rightarrow> py" where
  "dict_get d k = (case d k of None \<Rightarrow> PNone | Some v \<Rightarrow> v)"

text \<open>
  The loop over the configured preferences: the first one with a truthy value is stored
  under \<^verbatim>\<open>displayname\<close> and ends the loop.
\<close>

fun displayname_loop :: "(string \<rightharpoonup> py) \<Rightarrow> string list \<Rightarrow> (string \<rightharpoonup> py)" where
  "displayname_loop info [] = info"
| "displayname_loop info (preference # rest) =
     (if truthy (dict_get info preference)
      then info(''displayname'' \<mapsto> dict_get info preference)
      else displayname_loop info rest)"

text \<open>\<^verbatim>\<open>template.format(**info)\<close>: a field that names no key raises \<^verbatim>\<open>KeyError\<close>.\<close>

fun format_template :: "config \<Rightarrow> tpart list \<Rightarrow> (string \<rightharpoonup> py) \<Rightarrow> exn + string" where
  "format_template cfg [] d = Inr []"
| "format_template cfg (TLit s # ps) d =
     (case format_template cfg ps d of Inl e \<Rightarrow> Inl e | Inr r \<Rightarrow> Inr (s @ r))"
| "format_template cfg (TField k # ps) d =
     (case d k of
        None \<Rightarrow> Inl KeyError
      | Some v \<Rightarrow>
          (case format_template cfg ps d of Inl e \<Rightarrow> Inl e | Inr r \<Rightarrow> Inr (py_str cfg v @ r)))"

definition get_displayname :: "config \<Rightarrow> (string \<times> py) list \<Rightarrow> exn + string" where
  "get_displayname cfg info =
     (case py_get (PDict info) ''miniProfile'' (PDict []) of
        Inl e \<Rightarrow> Inl e
      | Inr profile \<Rightarrow>
     (case py_get profile ''firstName'' PNone of
        Inl e \<Rightarrow> Inl e
      | Inr firstName \<Rightarrow>
     (case py_get profile ''lastName'' PNone of
        Inl e \<Rightarrow> Inl e
      | Inr lastName \<Rightarrow>
          format_template cfg (displayname_template cfg)
            (displayname_loop (displayname_fields cfg firstName lastName)
               (displayname_preference cfg)))))"

section \<open>Updating the name and the photo\<close>

text \<open>
  \<^verbatim>\<open>_update_name\<close>. The clause \<^verbatim>\<open>except Exception\<close> catches what \<^verbatim>\<open>set_displayname\<close> raises when
  it is an instance of \<^verbatim>\<open>Exception\<close>; any other exception leaves the method, after the
  name is stored and before \<open>name_set\<close> is assigned.
\<close>

definition update_name :: "env \<Rightarrow> config \<Rightarrow> (string \<times> py) list \<Rightarrow> world \<Rightarrow> (exn + bool) \<times> world" where
  "update_name env cfg info w =
     (case get_displayname cfg info of
        Inl e \<Rightarrow> (Inl e, w)
      | Inr nm \<Rightarrow>
          if Some nm \<noteq> name (self w) \<or> \<not> name_set (self w) then
            let w1 = w\<lparr>self := (self w)\<lparr>name := Some nm\<rparr>,
                      effects := effects w @ [SetDisplayname nm]\<rparr>
            in (case set_displayname env nm of
                  Inr u \<Rightarrow> (Inr True, w1\<lparr>self := (self w1)\<lparr>name_set := True\<rparr>\<rparr>)
                | Inl e \<Rightarrow>
                    if is_exception e then
                      (Inr True, w1\<lparr>self := (self w1)\<lparr>name_set := False\<rparr>,
                                    effects := effects w1 @ [LogException ''Failed to set displayname'']\<rparr>)
                    else (Inl e, w1))
          else (Inr False, w))"

text \<open>
  \<^verbatim>\<open>reupload_avatar\<close> is a static method: it reads and writes no field of the puppet, so it
  runs on the effects alone.
\<close>

definition reupload_avatar :: "env \<Rightarrow> string \<Rightarrow> event list \<Rightarrow> (exn + string) \<times> event list" where
  "reupload_avatar env url es =
     (case requests_get env url of
        Inl e \<Rightarrow> (Inl e, es @ [HttpGet url])
      | Inr image_data \<Rightarrow>
          if \<not> ok image_data
          then (Inl (Exception (''Couldn'' @ [CHR 0x27] @ ''t download profile picture'')),
                es @ [HttpGet url])
          else
            (case magic_from_buffer env (content image_data) of
               Inl e \<Rightarrow> (Inl e, es @ [HttpGet url])
             | Inr mime \<Rightarrow>
                 (upload_media env (content image_data) mime,
                  es @ [HttpGet url, UploadMedia (content image_data) mime])))"

text \<open>
  Lines 185 to 190 of \<^verbatim>\<open>_update_photo\<close>: the photo id read from the root URL.
  \<^verbatim>\<open>re.match\<close> raises \<^verbatim>\<open>TypeError\<close> on a truthy value that is not a string.
\<close>

definition extract_photo_id :: "py \<Rightarrow> exn + string option" where
  "extract_photo_id root_url =
     (if truthy root_url
      then (case root_url of PStr url \<Rightarrow> Inr (photo_id_match url) | _ \<Rightarrow> Inl TypeError)
      else Inr None)"

text \<open>
  Lines 197 to 203: \<^verbatim>\<open>root_url + picture["artifacts"][0]["fileIdentifyingUrlPathSegment"]\<close>.
\<close>

definition avatar_url :: "py \<Rightarrow> py \<Rightarrow> exn + string" where
  "avatar_url picture root_url =
     (case py_getitem picture ''artifacts'' of
        Inl e \<Rightarrow> Inl e
      | Inr artifacts \<Rightarrow>
     (case py_index0 artifacts of
        Inl e \<Rightarrow> Inl e
      | Inr artifact \<Rightarrow>
     (case py_getitem artifact ''fileIdentifyingUrlPathSegment'' of
        Inl e \<Rightarrow> Inl e
      | Inr file_path_segment \<Rightarrow>
     (case (root_url, file_path_segment) of
        (PStr u, PStr s) \<Rightarrow> Inr (u @ s)
      | _ \<Rightarrow> Inl TypeError))))"

text \<open>
  Lines 208 to 215: the avatar is pushed to the ghost, and the flag follows the outcome.
  An exception that \<^verbatim>\<open>except Exception\<close> does not catch leaves the method.
\<close>

definition push_avatar :: "env \<Rightarrow> world \<Rightarrow> (exn + bool) \<times> world" where
  "push_avatar env w =
     (let mxc = (case photo_mxc (self w) of None \<Rightarrow> [] | Some m \<Rightarrow> m);
          w1 = w\<lparr>effects := effects w @ [SetAvatarUrl mxc]\<rparr>
      in (case set_avatar_url env mxc of
            Inr u \<Rightarrow> (Inr True, w1\<lparr>self := (self w1)\<lparr>avatar_set := True\<rparr>\<rparr>)
          | Inl e \<Rightarrow>
              if is_exception e then
                (Inr True, w1\<lparr>self := (self w1)\<lparr>avatar_set := False\<rparr>,
                              effects := effects w1 @ [LogException ''Failed to set avatar'']\<rparr>)
              else (Inl e, w1)))"

definition update_photo :: "env \<Rightarrow> py \<Rightarrow> world \<Rightarrow> (exn + bool) \<times> world" where
  "update_photo env picture w =
     (case py_get picture ''rootUrl'' PNone of
        Inl e \<Rightarrow> (Inl e, w)
      | Inr root_url \<Rightarrow>
     (case extract_photo_id root_url of
        Inl e \<Rightarrow> (Inl e, w)
      | Inr pid \<Rightarrow>
          if pid \<noteq> photo_id (self w) \<or> \<not> avatar_set (self w) then
            let w1 = w\<lparr>self := (self w)\<lparr>photo_id := pid\<rparr>\<rparr> in
            if pid \<noteq> None \<and> pid \<noteq> Some [] then
              (case avatar_url picture root_url of
                 Inl e \<Rightarrow> (Inl e, w1)
               | Inr url \<Rightarrow>
                   (case reupload_avatar env url (effects w1) of
                      (Inl e, es) \<Rightarrow> (Inl e, w1\<lparr>effects := es\<rparr>)
                    | (Inr mxc, es) \<Rightarrow>
                        push_avatar env (w1\<lparr>self := (self w1)\<lparr>photo_mxc := Some mxc\<rparr>, effects := es\<rparr>)))
            else push_avatar env (w1\<lparr>self := (self w1)\<lparr>photo_mxc := Some []\<rparr>\<rparr>)
          else (Inr False, w)))"

section \<open>\<^verbatim>\<open>update_info\<close>\<close>

text \<open>
  The argument of \<^verbatim>\<open>_update_photo\<close>:
  \<^verbatim>\<open>info.get("miniProfile", {}).get("picture", {}).get("com.linkedin.common.VectorImage", {})\<close>.
\<close>

definition picture_of :: "(string \<times> py) list \<Rightarrow> exn + py" where
  "picture_of info =
     (case py_get (PDict info) ''miniProfile'' (PDict []) of
        Inl e \<Rightarrow> Inl e
      | Inr profile \<Rightarrow>
     (case py_get profile ''picture'' (PDict []) of
        Inl e \<Rightarrow> Inl e
      | Inr picture \<Rightarrow> py_get picture ''com.linkedin.common.VectorImage'' (PDict [])))"

text \<open>The body of the \<^verbatim>\<open>try\<close> block, lines 125 to 137.\<close>

definition update_info_try ::
  "env \<Rightarrow> config \<Rightarrow> (string \<times> py) list \<Rightarrow> bool \<Rightarrow> world \<Rightarrow> (exn + unit) \<times> world" where
  "update_info_try env cfg info update_avatar w =
     (case update_name env cfg info w of
        (Inl e, w1) \<Rightarrow> (Inl e, w1)
      | (Inr changed, w1) \<Rightarrow>
     (case (if update_avatar then
              (case picture_of info of
                 Inl e \<Rightarrow> (Inl e, w1)
               | Inr picture \<Rightarrow>
                   (case update_photo env picture w1 of
                      (Inl e, w2) \<Rightarrow> (Inl e, w2)
                    | (Inr c, w2) \<Rightarrow> (Inr (c \<or> changed), w2)))
            else (Inr changed, w1)) of
        (Inl e, w2) \<Rightarrow> (Inl e, w2)
      | (Inr changed2, w2) \<Rightarrow>
          if changed2 then
            (case save env (self w2) of
               Inl e \<Rightarrow> (Inl e, w2\<lparr>effects := effects w2 @ [Save (self w2)]\<rparr>)
             | Inr u \<Rightarrow> (Inr (), w2\<lparr>effects := effects w2 @ [Save (self w2)]\<rparr>))
          else (Inr (), w2)))"

text \<open>
  \<^verbatim>\<open>update_info(source, info, update_avatar)\<close>. The handler of the \<^verbatim>\<open>try\<close> block formats
  \<^verbatim>\<open>source.li_member_urn\<close> into its log message, which raises \<^verbatim>\<open>AttributeError\<close> when
  \<^verbatim>\<open>source\<close> is \<^verbatim>\<open>None\<close>. An exception that \<^verbatim>\<open>except Exception\<close> does not catch leaves
  the method as it is. The result is the exception that leaves the method, or the puppet it
  returns.
\<close>

definition update_info ::
  "env \<Rightarrow> config \<Rightarrow> user option \<Rightarrow> (string \<times> py) list option \<Rightarrow> bool \<Rightarrow> world
     \<Rightarrow> (exn + puppet) \<times> world" where
  "update_info env cfg source info update_avatar w =
     (case info of
        None \<Rightarrow> (Inr (self w), w)
      | Some [] \<Rightarrow> (Inr (self w), w)
      | Some (kv # kvs) \<Rightarrow>
          (let w0 = w\<lparr>self := (self w)\<lparr>last_info_sync := Some (now env)\<rparr>\<rparr> in
           case update_info_try env cfg (kv # kvs) update_avatar w0 of
             (Inr u, w1) \<Rightarrow> (Inr (self w1), w1)
           | (Inl e, w1) \<Rightarrow>
               if is_exception e then
                 (case source of
                    None \<Rightarrow> (Inl AttributeError, w1)
                  | Some src \<Rightarrow>
                      (Inr (self w1),
                       w1\<lparr>effects := effects w1 @
                          [LogException (''Failed to update info from source '' @ user_li_member_urn src)]\<rparr>))
               else (Inl e, w1)))"

section \<open>The registry: caches and database getters\<close>

text \<open>
  A \<^verbatim>\<open>Puppet\<close> instance is an object: two lookups return the same instance when they return
  the same reference. \<open>instances\<close> holds every instance constructed so far, and the
  reference of an instance is its position there. The two class-level dictionaries map a
  key to a reference.
\<close>

text \<open>
  Modelled from the spec: the database class \<^verbatim>\<open>DBPuppet\<close> (module \<^verbatim>\<open>.db\<close>) is not among the
  source files. The persistent store is a "simple CRUD collaborator" with
  \<^verbatim>\<open>loadByRemoteKey(key)\<close>, \<^verbatim>\<open>loadByCustomLocalId(id)\<close>, \<^verbatim>\<open>loadAllWithCustomLocalId()\<close> and
  \<^verbatim>\<open>insert(puppet)\<close>: \<open>table\<close> holds the rows, a load returns a fresh instance built from the
  first row with the key (with the custom identifier), or \<^verbatim>\<open>None\<close>, the load of all returns
  a fresh instance for every row "with a non-null custom local identifier", and an insert
  adds a row.
  Each call may raise, and then "propagates up to the caller of Registry operations
  uncaught"; \<open>store\<close> says which calls raise.
\<close>

datatype reg_event =
  CacheLookup string | DbLoad string | DbInsert puppet
  | CustomCacheLookup string | DbLoadCustom string | DbLoadAll

record store =
  load_raises :: "string \<Rightarrow> exn option"
  insert_raises :: "puppet \<Rightarrow> exn option"
  load_custom_raises :: "string \<Rightarrow> exn option"
  load_all_raises :: "exn option"

record registry =
  instances :: "puppet list"
  by_li_member_urn :: "string \<rightharpoonup> nat"
  by_custom_mxid :: "string \<rightharpoonup> nat"
  table :: "puppet list"
  queries :: "reg_event list"

text \<open>
  \<^verbatim>\<open>cls(li_member_urn, None, None, None, False, False)\<close>. The constructor also derives
  \<^verbatim>\<open>default_mxid\<close> and the intents from the key; they are functions of the key and no
  fields of their own here.
\<close>

definition new_puppet :: "string \<Rightarrow> puppet" where
  "new_puppet urn =
     \<lparr>li_member_urn = urn, name = None, photo_id = None, photo_mxc = None,
      name_set = False, avatar_set = False, is_registered = False, custom_mxid = None,
      next_batch = None, last_info_sync = None\<rparr>"

text \<open>\<^verbatim>\<open>_add_to_cache\<close>, for the instance \<open>p\<close> with reference \<open>ref\<close>.\<close>

definition add_to_cache :: "nat \<Rightarrow> puppet \<Rightarrow> registry \<Rightarrow> registry" where
  "add_to_cache ref p reg =
     reg\<lparr>by_li_member_urn := (by_li_member_urn reg)(li_member_urn p \<mapsto> ref),
         by_custom_mxid :=
           (case custom_mxid p of
              None \<Rightarrow> by_custom_mxid reg
            | Some m \<Rightarrow> if m \<noteq> [] then (by_custom_mxid reg)(m \<mapsto> ref) else by_custom_mxid reg)\<rparr>"

text \<open>
  \<^verbatim>\<open>get_by_li_member_urn\<close>, run from the moment it holds its lock to its return. The result
  is the exception raised by the store, or the reference returned (\<^verbatim>\<open>None\<close> when the key is
  unknown and \<^verbatim>\<open>create\<close> is false).
\<close>

definition get_by_li_member_urn ::
  "store \<Rightarrow> string \<Rightarrow> bool \<Rightarrow> registry \<Rightarrow> (exn + nat option) \<times> registry" where
  "get_by_li_member_urn st urn create reg =
     (let reg1 = reg\<lparr>queries := queries reg @ [CacheLookup urn]\<rparr> in
      case by_li_member_urn reg urn of
        Some ref \<Rightarrow> (Inr (Some ref), reg1)
      | None \<Rightarrow>
          (let reg2 = reg1\<lparr>queries := queries reg1 @ [DbLoad urn]\<rparr> in
           case load_raises st urn of
             Some e \<Rightarrow> (Inl e, reg2)
           | None \<Rightarrow>
               (case find (\<lambda>r. li_member_urn r = urn) (table reg) of
                  Some row \<Rightarrow>
                    (let ref = length (instances reg2);
                         reg3 = reg2\<lparr>instances := instances reg2 @ [row\<lparr>last_info_sync := None\<rparr>]\<rparr>
                     in (Inr (Some ref), add_to_cache ref (row\<lparr>last_info_sync := None\<rparr>) reg3))
                | None \<Rightarrow>
                    if create then
                      (let p = new_puppet urn;
                           ref = length (instances reg2);
                           reg3 = reg2\<lparr>instances := instances reg2 @ [p],
                                      queries := queries reg2 @ [DbInsert p]\<rparr>
                       in case insert_raises st p of
                            Some e \<Rightarrow> (Inl e, reg3)
                          | None \<Rightarrow>
                              (Inr (Some ref), add_to_cache ref p (reg3\<lparr>table := table reg3 @ [p]\<rparr>)))
                    else (Inr None, reg2))))"

definition get_by_mxid ::
  "store \<Rightarrow> config \<Rightarrow> string \<Rightarrow> bool \<Rightarrow> registry \<Rightarrow> (exn + nat option) \<times> registry" where
  "get_by_mxid st cfg mxid create reg =
     (case get_id_from_mxid cfg mxid of
        None \<Rightarrow> (Inr None, reg)
      | Some urn \<Rightarrow>
          if urn \<noteq> [] then get_by_li_member_urn st urn create reg else (Inr None, reg))"

section \<open>Concurrent calls of the getters\<close>

text \<open>
  Modelled from the spec: the decorator \<^verbatim>\<open>async_getter_lock\<close> (imported from
  \<^verbatim>\<open>mautrix.bridge\<close>) is not among the source files. The registry is "lock-guarded per-key":
  the lock "must serialize concurrent calls for the same key into a single construction,
  while calls for different keys may proceed concurrently", and "every network call (local
  identity-service calls, remote HTTP fetch, persistent-store queries) is a suspension
  point" of the cooperative tasks. So a call of a getter runs alone from one suspension
  point to the next, and its program points are: \<open>Start\<close>, not started or waiting for the
  lock of its key; \<open>Loading\<close>, the cache had no entry and it awaits the load from the store
  (holding the lock, when the getter is locked); \<open>Inserting ref\<close>, it holds the lock, has
  constructed the instance \<open>ref\<close> and awaits the insert; \<open>Enumerating pending yielded\<close>, the
  generator \<^verbatim>\<open>get_all_with_custom_mxid\<close> is suspended at a \<^verbatim>\<open>yield\<close>, with the loaded
  instances it has still to visit and the references it has yielded; \<open>Returned r\<close>,
  \<open>Enumerated yielded\<close> and \<open>Raised e\<close>, it is done and its lock is released.
\<close>

datatype pc =
  Start | Loading | Inserting nat | Enumerating "nat list" "nat list"
  | Returned "nat option" | Enumerated "nat list" | Raised exn

text \<open>
  The calls that reach the caches: \<^verbatim>\<open>get_by_li_member_urn(li_member_urn, create=create)\<close>,
  \<^verbatim>\<open>get_by_custom_mxid(mxid)\<close> and \<^verbatim>\<open>get_all_with_custom_mxid()\<close>.
\<close>

datatype call = GetByLiMemberUrn string bool | GetByCustomMxid string | GetAllWithCustomMxid

datatype getter = ByLiMemberUrn | ByCustomMxid | AllWithCustomMxid

text \<open>
  A call in progress: the getter, its positional argument (the key of its lock), its
  \<^verbatim>\<open>create\<close> argument and where it stands.
\<close>

record caller =
  c_getter :: getter
  c_arg :: string
  c_create :: bool
  c_pc :: pc

fun new_caller :: "call \<Rightarrow> caller" where
  "new_caller (GetByLiMemberUrn urn create) =
     \<lparr>c_getter = ByLiMemberUrn, c_arg = urn, c_create = create, c_pc = Start\<rparr>"
| "new_caller (GetByCustomMxid mxid) =
     \<lparr>c_getter = ByCustomMxid, c_arg = mxid, c_create = False, c_pc = Start\<rparr>"
| "new_caller GetAllWithCustomMxid =
     \<lparr>c_getter = AllWithCustomMxid, c_arg = [], c_create = False, c_pc = Start\<rparr>"

text \<open>The registry shared by the callers, the holder of the lock of each key, the callers.\<close>

record conc =
  registry_of :: registry
  lock_holder :: "string \<rightharpoonup> nat"
  callers :: "caller list"

text \<open>
  Modelled from the spec: the lock of \<^verbatim>\<open>async_getter_lock\<close> around the body of
  \<^verbatim>\<open>get_by_li_member_urn\<close>, taken per key before the cache is read and released when the
  call ends. Caller \<open>i\<close> is resumed and runs to its next suspension point, with the
  statements of \<^verbatim>\<open>get_by_li_member_urn\<close> in their order. A caller whose lock is held by
  another, or that is done, leaves the state as it is. The row is read when the load is
  answered.
\<close>

definition step_get_by_li_member_urn :: "store \<Rightarrow> nat \<Rightarrow> conc \<Rightarrow> conc" where
  "step_get_by_li_member_urn st i s =
     (if length (callers s) \<le> i then s
      else
        let c = callers s ! i; urn = c_arg c; rg = registry_of s in
        case c_pc c of
          Start \<Rightarrow>
            (case lock_holder s urn of
               Some h \<Rightarrow> s
             | None \<Rightarrow>
                 (case by_li_member_urn rg urn of
                    Some ref \<Rightarrow>
                      s\<lparr>registry_of := rg\<lparr>queries := queries rg @ [CacheLookup urn]\<rparr>,
                        callers := (callers s)[i := c\<lparr>c_pc := Returned (Some ref)\<rparr>]\<rparr>
                  | None \<Rightarrow>
                      s\<lparr>registry_of := rg\<lparr>queries := queries rg @ [CacheLookup urn, DbLoad urn]\<rparr>,
                        lock_holder := (lock_holder s)(urn \<mapsto> i),
                        callers := (callers s)[i := c\<lparr>c_pc := Loading\<rparr>]\<rparr>))
        | Loading \<Rightarrow>
            (case load_raises st urn of
               Some e \<Rightarrow>
                 s\<lparr>lock_holder := (lock_holder s)(urn := None),
                   callers := (callers s)[i := c\<lparr>c_pc := Raised e\<rparr>]\<rparr>
             | None \<Rightarrow>
                 (case find (\<lambda>r. li_member_urn r = urn) (table rg) of
                    Some row \<Rightarrow>
                      s\<lparr>registry_of :=
                          add_to_cache (length (instances rg)) (row\<lparr>last_info_sync := None\<rparr>)
                            (rg\<lparr>instances := instances rg @ [row\<lparr>last_info_sync := None\<rparr>]\<rparr>),
                        lock_holder := (lock_holder s)(urn := None),
                        callers := (callers s)[i := c\<lparr>c_pc := Returned (Some (length (instances rg)))\<rparr>]\<rparr>
                  | None \<Rightarrow>
                      if c_create c then
                        s\<lparr>registry_of :=
                            rg\<lparr>instances := instances rg @ [new_puppet urn],
                               queries := queries rg @ [DbInsert (new_puppet urn)]\<rparr>,
                          callers := (callers s)[i := c\<lparr>c_pc := Inserting (length (instances rg))\<rparr>]\<rparr>
                      else
                        s\<lparr>lock_holder := (lock_holder s)(urn := None),
                          callers := (callers s)[i := c\<lparr>c_pc := Returned None\<rparr>]\<rparr>))
        | Inserting ref \<Rightarrow>
            (case insert_raises st (new_puppet urn) of
               Some e \<Rightarrow>
                 s\<lparr>lock_holder := (lock_holder s)(urn := None),
                   callers := (callers s)[i := c\<lparr>c_pc := Raised e\<rparr>]\<rparr>
             | None \<Rightarrow>
                 s\<lparr>registry_of :=
                     add_to_cache ref (new_puppet urn) (rg\<lparr>table := table rg @ [new_puppet urn]\<rparr>),
                   lock_holder := (lock_holder s)(urn := None),
                   callers := (callers s)[i := c\<lparr>c_pc := Returned (Some ref)\<rparr>]\<rparr>)
        | Enumerating pending yielded \<Rightarrow> s
        | Returned r \<Rightarrow> s
        | Enumerated yielded \<Rightarrow> s
        | Raised e \<Rightarrow> s)"

text \<open>
  Modelled from the spec: the lock of \<^verbatim>\<open>async_getter_lock\<close> around the body of
  \<^verbatim>\<open>get_by_custom_mxid\<close>, "lock-guarded lookup restricted to the custom-identity index;
  never creates", here the lock of the key \<open>mxid\<close>. Caller \<open>i\<close> is resumed and runs to its
  next suspension point, with the statements of \<^verbatim>\<open>get_by_custom_mxid\<close> in their order: the
  cache \<^verbatim>\<open>by_custom_mxid\<close> is read, on a miss the row with the custom identifier is loaded, and
  the instance built from it goes through \<^verbatim>\<open>_add_to_cache\<close>, which writes
  \<^verbatim>\<open>by_li_member_urn\<close> under the key of the row whatever is cached there.
\<close>

definition step_get_by_custom_mxid :: "store \<Rightarrow> nat \<Rightarrow> conc \<Rightarrow> conc" where
  "step_get_by_custom_mxid st i s =
     (if length (callers s) \<le> i then s
      else
        let c = callers s ! i; mxid = c_arg c; rg = registry_of s in
        case c_pc c of
          Start \<Rightarrow>
            (case lock_holder s mxid of
               Some h \<Rightarrow> s
             | None \<Rightarrow>
                 (case by_custom_mxid rg mxid of
                    Some ref \<Rightarrow>
                      s\<lparr>registry_of := rg\<lparr>queries := queries rg @ [CustomCacheLookup mxid]\<rparr>,
                        callers := (callers s)[i := c\<lparr>c_pc := Returned (Some ref)\<rparr>]\<rparr>
                  | None \<Rightarrow>
                      s\<lparr>registry_of :=
                          rg\<lparr>queries := queries rg @ [CustomCacheLookup mxid, DbLoadCustom mxid]\<rparr>,
                        lock_holder := (lock_holder s)(mxid \<mapsto> i),
                        callers := (callers s)[i := c\<lparr>c_pc := Loading\<rparr>]\<rparr>))
        | Loading \<Rightarrow>
            (case load_custom_raises st mxid of
               Some e \<Rightarrow>
                 s\<lparr>lock_holder := (lock_holder s)(mxid := None),
                   callers := (callers s)[i := c\<lparr>c_pc := Raised e\<rparr>]\<rparr>
             | None \<Rightarrow>
                 (case find (\<lambda>r. custom_mxid r = Some mxid) (table rg) of
                    Some row \<Rightarrow>
                      s\<lparr>registry_of :=
                          add_to_cache (length (instances rg)) (row\<lparr>last_info_sync := None\<rparr>)
                            (rg\<lparr>instances := instances rg @ [row\<lparr>last_info_sync := None\<rparr>]\<rparr>),
                        lock_holder := (lock_holder s)(mxid := None),
                        callers := (callers s)[i := c\<lparr>c_pc := Returned (Some (length (instances rg)))\<rparr>]\<rparr>
                  | None \<Rightarrow>
                      s\<lparr>lock_holder := (lock_holder s)(mxid := None),
                        callers := (callers s)[i := c\<lparr>c_pc := Returned None\<rparr>]\<rparr>))
        | Inserting ref \<Rightarrow> s
        | Enumerating pending yielded \<Rightarrow> s
        | Returned r \<Rightarrow> s
        | Enumerated yielded \<Rightarrow> s
        | Raised e \<Rightarrow> s)"

text \<open>
  One turn of the loop of \<^verbatim>\<open>get_all_with_custom_mxid\<close>, to its \<^verbatim>\<open>yield\<close>: the next loaded
  instance is looked up in \<^verbatim>\<open>by_li_member_urn\<close> by its key; the cached instance is yielded
  when there is one, and else the loaded one, after \<^verbatim>\<open>_add_to_cache\<close>. With no instance
  left the generator ends.
\<close>

fun yield_next :: "nat list \<Rightarrow> nat list \<Rightarrow> registry \<Rightarrow> pc \<times> registry" where
  "yield_next [] yielded rg = (Enumerated yielded, rg)"
| "yield_next (ref # pending) yielded rg =
     (let p = instances rg ! ref;
          rg1 = rg\<lparr>queries := queries rg @ [CacheLookup (li_member_urn p)]\<rparr>
      in case by_li_member_urn rg (li_member_urn p) of
           Some cached \<Rightarrow> (Enumerating pending (yielded @ [cached]), rg1)
         | None \<Rightarrow> (Enumerating pending (yielded @ [ref]), add_to_cache ref p rg1))"

text \<open>
  \<^verbatim>\<open>get_all_with_custom_mxid\<close>, which takes no lock. Caller \<open>i\<close> is resumed and runs to its
  next suspension point: the load of all rows with a custom identifier, and then one
  \<^verbatim>\<open>yield\<close> after the other. The store builds an instance for every such row, also for a
  key that is cached.
\<close>

definition step_get_all_with_custom_mxid :: "store \<Rightarrow> nat \<Rightarrow> conc \<Rightarrow> conc" where
  "step_get_all_with_custom_mxid st i s =
     (if length (callers s) \<le> i then s
      else
        let c = callers s ! i; rg = registry_of s in
        case c_pc c of
          Start \<Rightarrow>
            s\<lparr>registry_of := rg\<lparr>queries := queries rg @ [DbLoadAll]\<rparr>,
              callers := (callers s)[i := c\<lparr>c_pc := Loading\<rparr>]\<rparr>
        | Loading \<Rightarrow>
            (case load_all_raises st of
               Some e \<Rightarrow> s\<lparr>callers := (callers s)[i := c\<lparr>c_pc := Raised e\<rparr>]\<rparr>
             | None \<Rightarrow>
                 (let rows = filter (\<lambda>r. custom_mxid r \<noteq> None) (table rg);
                      refs = [length (instances rg) ..< length (instances rg) + length rows];
                      rg1 = rg\<lparr>instances :=
                                instances rg @ map (\<lambda>r. r\<lparr>last_info_sync := None\<rparr>) rows\<rparr>;
                      res = yield_next refs [] rg1
                  in s\<lparr>registry_of := snd res,
                       callers := (callers s)[i := c\<lparr>c_pc := fst res\<rparr>]\<rparr>))
        | Inserting ref \<Rightarrow> s
        | Enumerating pending yielded \<Rightarrow>
            (let res = yield_next pending yielded rg
             in s\<lparr>registry_of := snd res,
                  callers := (callers s)[i := c\<lparr>c_pc := fst res\<rparr>]\<rparr>)
        | Returned r \<Rightarrow> s
        | Enumerated yielded \<Rightarrow> s
        | Raised e \<Rightarrow> s)"

text \<open>Caller \<open>i\<close> is resumed: it goes on in the getter it called.\<close>

definition step_caller :: "store \<Rightarrow> nat \<Rightarrow> conc \<Rightarrow> conc" where
  "step_caller st i s =
     (if length (callers s) \<le> i then s
      else
        case c_getter (callers s ! i) of
          ByLiMemberUrn \<Rightarrow> step_get_by_li_member_urn st i s
        | ByCustomMxid \<Rightarrow> step_get_by_custom_mxid st i s
        | AllWithCustomMxid \<Rightarrow> step_get_all_with_custom_mxid st i s)"

text \<open>
  A schedule is the list of the callers in the order in which the event loop resumes them;
  every interleaving of the calls is the run of some schedule.
\<close>

definition run :: "store \<Rightarrow> nat list \<Rightarrow> conc \<Rightarrow> conc" where
  "run st sched s = fold (step_caller st) sched s"


text \<open>
  The state in which the bridge starts: the caches are the empty class-level dictionaries,
  no lock is held, the store has the rows of earlier runs, and no call has started.
\<close>

definition start :: "puppet list \<Rightarrow> call list \<Rightarrow> conc" where
  "start rows cs =
     \<lparr>registry_of = \<lparr>instances = [], by_li_member_urn = Map.empty, by_custom_mxid = Map.empty,
                      table = rows, queries = []\<rparr>,
      lock_holder = Map.empty,
      callers = map new_caller cs\<rparr>"

text \<open>The calls of \<^verbatim>\<open>get_by_li_member_urn\<close> with the given keys and \<^verbatim>\<open>create\<close> arguments.\<close>

definition by_li_member_urn_calls :: "(string \<times> bool) list \<Rightarrow> call list" where
  "by_li_member_urn_calls us = map (\<lambda>u. GetByLiMemberUrn (fst u) (snd u)) us"


text \<open>
  The invariant of the runs in which every caller is in \<^verbatim>\<open>get_by_li_member_urn\<close>. A caller
  holds the lock of its key exactly while it is loading or inserting, and then the cache
  has no entry for the key; a caller that returned a reference returned the cached one, and
  only a caller without \<^verbatim>\<open>create\<close> returned \<^verbatim>\<open>None\<close>.
\<close>

fun holding :: "pc \<Rightarrow> bool" where
  "holding Loading = True"
| "holding (Inserting ref) = True"
| "holding _ = False"

definition inv_lock :: "conc \<Rightarrow> bool" where
  "inv_lock s \<longleftrightarrow>
     (\<forall>k h. lock_holder s k = Some h \<longrightarrow>
        h < length (callers s) \<and> c_arg (callers s ! h) = k \<and> holding (c_pc (callers s ! h)) \<and>
        by_li_member_urn (registry_of s) k = None)"







definition instances_of :: "string \<Rightarrow> conc \<Rightarrow> puppet list" where
  "instances_of k s = filter (\<lambda>p. li_member_urn p = k) (instances (registry_of s))"




section \<open>Sample inputs\<close>

text \<open>Concrete values on which the definitions are evaluated below.\<close>

definition puppet0 :: puppet where
  "puppet0 = new_puppet ''urn42''"

definition w0 :: world where
  "w0 = \<lparr>self = puppet0, effects = []\<rparr>"

definition picture0 :: py where
  "picture0 =
     PDict [(''rootUrl'', PStr ''https://media.licdn.com/image/ABC123/profile-displayphoto-shrink_''),
            (''artifacts'', PList [PDict [(''fileIdentifyingUrlPathSegment'', PStr ''100_100'')]])]"

definition info0 :: "(string \<times> py) list" where
  "info0 =
     [(''miniProfile'',
       PDict [(''firstName'', PStr ''Ada''), (''lastName'', PStr ''Lovelace''),
              (''picture'', PDict [(''com.linkedin.common.VectorImage'', picture0)])])]"

text \<open>Every collaborator succeeds.\<close>

definition env_ok :: env where
  "env_ok =
     \<lparr>now = 1000,
      set_displayname = (\<lambda>n. Inr ()),
      requests_get = (\<lambda>url. Inr \<lparr>ok = True, content = ''PNG''\<rparr>),
      magic_from_buffer = (\<lambda>b. Inr ''image/png''),
      upload_media = (\<lambda>b m. Inr ''mxc://example.org/abc''),
      set_avatar_url = (\<lambda>m. Inr ()),
      save = (\<lambda>p. Inr ())\<rparr>"

text \<open>The identity service rejects the display name.\<close>

definition env_name_fails :: env where
  "env_name_fails = env_ok\<lparr>set_displayname := (\<lambda>n. Inl (Exception ''M_FORBIDDEN''))\<rparr>"

text \<open>The task is cancelled while it awaits \<^verbatim>\<open>set_displayname\<close>.\<close>

definition env_name_cancelled :: env where
  "env_name_cancelled = env_ok\<lparr>set_displayname := (\<lambda>n. Inl CancelledError)\<rparr>"

text \<open>The download of the picture answers with a status that is not successful.\<close>

definition env_download_fails :: env where
  "env_download_fails = env_ok\<lparr>requests_get := (\<lambda>url. Inr \<lparr>ok = False, content = []\<rparr>)\<rparr>"

text \<open>A puppet whose name and avatar were synchronised before, with another photo.\<close>

definition puppet_synced :: puppet where
  "puppet_synced =
     puppet0\<lparr>name := Some ''Ada Lovelace (LinkedIn)'', photo_id := Some ''OLD999'',
             photo_mxc := Some ''mxc://example.org/old'', name_set := True, avatar_set := True\<rparr>"

definition store_ok :: store where
  "store_ok =
     \<lparr>load_raises = (\<lambda>k. None), insert_raises = (\<lambda>p. None),
      load_custom_raises = (\<lambda>m. None), load_all_raises = None\<rparr>"

definition registry0 :: registry where
  "registry0 =
     \<lparr>instances = [], by_li_member_urn = Map.empty, by_custom_mxid = Map.empty,
      table = [], queries = []\<rparr>"




text \<open>
  A row with a custom identifier, and a call of \<^verbatim>\<open>get_by_custom_mxid\<close> for it between two
  calls of \<^verbatim>\<open>get_by_li_member_urn\<close> for the key of the row.
\<close>

definition row_custom :: puppet where
  "row_custom = (new_puppet ''k'')\<lparr>custom_mxid := Some ''@ada:example.org''\<rparr>"



text \<open>A call of \<^verbatim>\<open>get_by_li_member_urn\<close> beside the enumeration of the same row.\<close>

definition calls_enumeration :: "call list" where
  "calls_enumeration = [GetByLiMemberUrn ''k'' True, GetAllWithCustomMxid]"

definition sched_enumeration :: "nat list" where
  "sched_enumeration = [0, 1, 1, 0, 1]"

section \<open>Theorems\<close>

subsection \<open>The photo id pattern\<close>

text \<open>
  C8: matching \<open>photo_id_re\<close> against the URL
  \<^verbatim>\<open>https://media.licdn.com/image/ABC123/profile-displayphoto-shrink_100_100\<close> succeeds and
  its first captured group is \<^verbatim>\<open>ABC123\<close>.
\<close>

theorem photo_id_re_scenario_b:
  "photo_id_match ''https://media.licdn.com/image/ABC123/profile-displayphoto-shrink_100_100''
     = Some ''ABC123''"
  by (simp add: photo_id_match_def photo_id_re_def)

subsection \<open>The identifier template\<close>

lemma py_slice_middle:
  "py_slice (p @ k @ s) (int (length p))
     (if 0 < length s then - int (length s) else int (length (p @ k @ s))) = k"
  by (cases "s = []") (simp_all add: py_slice_def Let_def)

lemma parse_format_full: "parse t (format_full t k) = Some k"
  unfolding parse_def format_full_def Let_def
  using py_slice_middle [of "st_prefix t" k "st_suffix t"] by simp

text \<open>
  C1: parsing the local identifier formatted from a remote user key \<open>k\<close> recovers \<open>k\<close>, for
  every key and every configuration. Both functions are total: the formatter returns an
  identifier for every key, and the parser returns a key or \<^verbatim>\<open>None\<close> for every identifier.
\<close>

theorem mxid_round_trip:
  "get_id_from_mxid cfg (get_mxid_from_id cfg k) = Some k"
  by (simp add: get_id_from_mxid_def get_mxid_from_id_def parse_format_full)

theorem mxid_round_trip_witness:
  "get_mxid_from_id cfg0 ''urn42'' = ''@linkedin_urn42:example.org'' \<and>
   get_id_from_mxid cfg0 ''@linkedin_urn42:example.org'' = Some ''urn42''"
  using mxid_round_trip [of cfg0 "''urn42''"]
  by (simp add: get_mxid_from_id_def format_full_def mxid_template_def cfg0_def)

subsection \<open>The display name\<close>

lemma displayname_loop_none_name:
  "displayname_loop (displayname_fields cfg PNone PNone) (pre @ ''name'' # post) =
     (displayname_fields cfg PNone PNone)(''displayname'' \<mapsto> PStr ''None None'')"
proof (induction pre)
  case Nil
  show ?case by (simp add: displayname_fields_def dict_get_def py_str_def)
next
  case (Cons p pre)
  show ?case
  proof (cases "p = ''name''")
    case True
    then show ?thesis by (simp add: displayname_fields_def dict_get_def py_str_def)
  next
    case False
    then have "\<not> truthy (dict_get (displayname_fields cfg PNone PNone) p)"
      by (simp add: displayname_fields_def dict_get_def)
    then show ?thesis using Cons.IH by simp
  qed
qed

text \<open>
  C10: when the \<^verbatim>\<open>miniProfile\<close> of \<open>info\<close> has neither \<^verbatim>\<open>firstName\<close> nor \<^verbatim>\<open>lastName\<close>, the
  candidate stored under \<^verbatim>\<open>name\<close> is the truthy string \<^verbatim>\<open>None None\<close>. So for every
  preference list in which \<^verbatim>\<open>name\<close> occurs, written \<open>pre @ ''name'' # post\<close>, the loop stores
  \<^verbatim>\<open>None None\<close> under \<^verbatim>\<open>displayname\<close>, and the display name is the template rendered with it:
  the result depends neither on the preferences before \<^verbatim>\<open>name\<close>, which are all falsy, nor
  on the preferences \<open>post\<close> after it, which the loop never reads.
\<close>

theorem get_displayname_none_none:
  assumes "py_get (PDict info) ''miniProfile'' (PDict []) = Inr (PDict profile)"
    and "map_of profile ''firstName'' = None"
    and "map_of profile ''lastName'' = None"
    and "displayname_preference cfg = pre @ ''name'' # post"
  shows "dict_get (displayname_fields cfg PNone PNone) ''name'' = PStr ''None None''
    \<and> truthy (PStr ''None None'')
    \<and> displayname_loop (displayname_fields cfg PNone PNone) (displayname_preference cfg) =
        (displayname_fields cfg PNone PNone)(''displayname'' \<mapsto> PStr ''None None'')
    \<and> get_displayname cfg info =
        format_template cfg (displayname_template cfg)
          ((displayname_fields cfg PNone PNone)(''displayname'' \<mapsto> PStr ''None None''))"
  using assms
  by (simp add: get_displayname_def displayname_loop_none_name)
    (simp add: displayname_fields_def dict_get_def py_str_def)

theorem get_displayname_none_none_witness:
  "py_get (PDict [(''miniProfile'', PDict [(''publicIdentifier'', PStr ''ada'')])]) ''miniProfile'' (PDict [])
     = Inr (PDict [(''publicIdentifier'', PStr ''ada'')])
   \<and> displayname_preference cfg0 = [''displayname''] @ ''name'' # [''first_name'']
   \<and> get_displayname cfg0 [(''miniProfile'', PDict [(''publicIdentifier'', PStr ''ada'')])]
     = Inr ''None None (LinkedIn)''"
  using get_displayname_none_none [of "[(''miniProfile'', PDict [(''publicIdentifier'', PStr ''ada'')])]"
      "[(''publicIdentifier'', PStr ''ada'')]" cfg0 "[''displayname'']" "[''first_name'']"]
  by (simp add: cfg0_def displayname_fields_def py_str_def)

subsection \<open>\<^verbatim>\<open>_update_name\<close>\<close>

text \<open>
  C4 (corrected): when the computed display name \<open>nm\<close> differs from the stored name, or
  \<open>name_set\<close> is false, and \<^verbatim>\<open>set_displayname\<close> raises an exception that is an instance of
  \<^verbatim>\<open>Exception\<close>, \<^verbatim>\<open>_update_name\<close> returns \<^verbatim>\<open>True\<close> and raises nothing; the puppet it leaves
  has \<open>nm\<close> as its name and \<open>name_set\<close> false, and the only effects are the call to the
  identity service and the logged exception.
\<close>

theorem update_name_push_failure:
  assumes "get_displayname cfg info = Inr nm"
    and "Some nm \<noteq> name (self w) \<or> \<not> name_set (self w)"
    and "set_displayname env nm = Inl e"
    and "is_exception e"
  shows "update_name env cfg info w =
    (Inr True,
     w\<lparr>self := (self w)\<lparr>name := Some nm, name_set := False\<rparr>,
       effects := effects w @ [SetDisplayname nm, LogException ''Failed to set displayname'']\<rparr>)"
  using assms by (auto simp: update_name_def Let_def)

lemma get_displayname_info0: "get_displayname cfg0 info0 = Inr ''Ada Lovelace (LinkedIn)''"
  by (simp add: get_displayname_def info0_def cfg0_def displayname_fields_def dict_get_def
      py_str_def)

theorem update_name_push_failure_witness:
  "get_displayname cfg0 info0 = Inr ''Ada Lovelace (LinkedIn)''
   \<and> name_set (self w0) = False
   \<and> set_displayname env_name_fails ''Ada Lovelace (LinkedIn)'' = Inl (Exception ''M_FORBIDDEN'')
   \<and> is_exception (Exception ''M_FORBIDDEN'')
   \<and> update_name env_name_fails cfg0 info0 w0 =
       (Inr True,
        \<lparr>self = puppet0\<lparr>name := Some ''Ada Lovelace (LinkedIn)'', name_set := False\<rparr>,
         effects = [SetDisplayname ''Ada Lovelace (LinkedIn)'',
                    LogException ''Failed to set displayname'']\<rparr>)"
  using update_name_push_failure [of cfg0 info0 "''Ada Lovelace (LinkedIn)''" w0 env_name_fails
      "Exception ''M_FORBIDDEN''"] get_displayname_info0
  by (simp add: w0_def puppet0_def new_puppet_def env_name_fails_def env_ok_def)

text \<open>
  The claim as it is written, for whatever \<^verbatim>\<open>set_displayname\<close> raises, fails when the task
  is cancelled at that call: \<^verbatim>\<open>except Exception\<close> does not catch \<^verbatim>\<open>CancelledError\<close>, so the
  exception leaves \<^verbatim>\<open>_update_name\<close>, which returns nothing, logs nothing and leaves
  \<open>name_set\<close> as it was (true here) beside the new name.
\<close>

theorem update_name_cancelled_counterexample:
  "get_displayname cfg0 info0 = Inr ''Ada Lovelace (LinkedIn)''
   \<and> name (self \<lparr>self = puppet0\<lparr>name := Some ''Ada'', name_set := True\<rparr>, effects = []\<rparr>)
       \<noteq> Some ''Ada Lovelace (LinkedIn)''
   \<and> set_displayname env_name_cancelled ''Ada Lovelace (LinkedIn)'' = Inl CancelledError
   \<and> update_name env_name_cancelled cfg0 info0
         \<lparr>self = puppet0\<lparr>name := Some ''Ada'', name_set := True\<rparr>, effects = []\<rparr> =
       (Inl CancelledError,
        \<lparr>self = puppet0\<lparr>name := Some ''Ada Lovelace (LinkedIn)'', name_set := True\<rparr>,
         effects = [SetDisplayname ''Ada Lovelace (LinkedIn)'']\<rparr>)"
  using get_displayname_info0
  by (simp add: update_name_def puppet0_def new_puppet_def env_name_cancelled_def env_ok_def)

subsection \<open>\<^verbatim>\<open>update_info\<close> on an empty info\<close>

text \<open>
  C7: with an info that is absent (\<^verbatim>\<open>None\<close>) or empty, \<^verbatim>\<open>update_info\<close> returns the puppet
  itself and leaves the whole state as it was: no field changes, the timestamp
  \<open>last_info_sync\<close> included, and no effect is added, so no collaborator is called and nothing
  is saved.
\<close>

theorem update_info_empty_noop:
  "info = None \<or> info = Some [] \<Longrightarrow>
   update_info env cfg source info update_avatar w = (Inr (self w), w)"
  by (auto simp: update_info_def)

theorem update_info_empty_noop_witness:
  "update_info env_ok cfg0 (Some (User ''urn7'')) (Some []) True w0 = (Inr puppet0, w0)
   \<and> last_info_sync (self w0) = None \<and> effects w0 = []"
  using update_info_empty_noop [of "Some []" env_ok cfg0 "Some (User ''urn7'')" True w0]
  by (simp add: w0_def puppet0_def new_puppet_def)

subsection \<open>\<^verbatim>\<open>update_info\<close> and exceptions\<close>

text \<open>
  With a source, \<^verbatim>\<open>update_info\<close> returns the puppet whatever exception of class
  \<^verbatim>\<open>Exception\<close> is raised; the only exception that can leave it is one that
  \<^verbatim>\<open>except Exception\<close> does not catch.
\<close>

lemma update_info_with_source_returns:
  "(\<exists>w1. update_info env cfg (Some src) info update_avatar w = (Inr (self w1), w1)) \<or>
   (\<exists>e w1. \<not> is_exception e \<and>
      update_info env cfg (Some src) info update_avatar w = (Inl e, w1))"
  by (auto simp: update_info_def Let_def split: option.splits list.splits prod.splits sum.splits)

text \<open>
  C2 (the code departs from the claim): the claim is that \<^verbatim>\<open>update_info\<close> never raises, also
  with \<^verbatim>\<open>None\<close> as its source. In the code, whenever the \<^verbatim>\<open>try\<close> block raises an exception
  and the source is \<^verbatim>\<open>None\<close>, the handler itself raises \<^verbatim>\<open>AttributeError\<close> and
  \<^verbatim>\<open>update_info\<close> returns no puppet (an exception that the handler does not catch leaves
  \<^verbatim>\<open>update_info\<close> as it is).
\<close>

theorem update_info_source_none_raises:
  assumes "update_info_try env cfg (kv # kvs) update_avatar
             (w\<lparr>self := (self w)\<lparr>last_info_sync := Some (now env)\<rparr>\<rparr>) = (Inl e, w1)"
  shows "update_info env cfg None (Some (kv # kvs)) update_avatar w =
           (Inl (if is_exception e then AttributeError else e), w1)"
  using assms by (simp add: update_info_def Let_def)

lemma extract_photo_id_picture0:
  "extract_photo_id (PStr ''https://media.licdn.com/image/ABC123/profile-displayphoto-shrink_'')
     = Inr (Some ''ABC123'')"
  by (simp add: extract_photo_id_def photo_id_match_def photo_id_re_def)

lemma avatar_url_picture0:
  "avatar_url picture0 (PStr ''https://media.licdn.com/image/ABC123/profile-displayphoto-shrink_'')
     = Inr ''https://media.licdn.com/image/ABC123/profile-displayphoto-shrink_100_100''"
  by (simp add: avatar_url_def picture0_def)

lemma picture_of_info0: "picture_of info0 = Inr picture0"
  by (simp add: picture_of_def info0_def)

lemma update_name_info0_w0:
  "update_name env_download_fails cfg0 info0
     (w0\<lparr>self := (self w0)\<lparr>last_info_sync := Some 1000\<rparr>\<rparr>) =
   (Inr True,
    \<lparr>self = puppet0\<lparr>name := Some ''Ada Lovelace (LinkedIn)'', name_set := True,
                      last_info_sync := Some 1000\<rparr>,
     effects = [SetDisplayname ''Ada Lovelace (LinkedIn)'']\<rparr>)"
  by (simp add: update_name_def get_displayname_info0 w0_def puppet0_def new_puppet_def
      env_download_fails_def env_ok_def)

lemma update_photo_reupload_raises:
  assumes "py_get picture ''rootUrl'' PNone = Inr root_url"
    and "extract_photo_id root_url = Inr (Some pid)" and "pid \<noteq> []"
    and "Some pid \<noteq> photo_id (self w) \<or> \<not> avatar_set (self w)"
    and "avatar_url picture root_url = Inr url"
    and "reupload_avatar env url (effects w) = (Inl e, es)"
  shows "update_photo env picture w =
     (Inl e, w\<lparr>self := (self w)\<lparr>photo_id := Some pid\<rparr>, effects := es\<rparr>)"
  using assms by (auto simp: update_photo_def Let_def)

lemma reupload_avatar_not_ok:
  assumes "requests_get env url = Inr image_data" and "\<not> ok image_data"
  shows "reupload_avatar env url es =
     (Inl (Exception (''Couldn'' @ [CHR 0x27] @ ''t download profile picture'')), es @ [HttpGet url])"
  using assms by (simp add: reupload_avatar_def)

lemma rootUrl_picture0:
  "py_get picture0 ''rootUrl'' PNone =
     Inr (PStr ''https://media.licdn.com/image/ABC123/profile-displayphoto-shrink_'')"
  by (simp add: picture0_def)

lemma requests_get_download_fails:
  "requests_get env_download_fails url = Inr \<lparr>ok = False, content = []\<rparr>"
  by (simp add: env_download_fails_def env_ok_def)

lemma update_photo_not_ok:
  assumes "py_get picture ''rootUrl'' PNone = Inr root_url"
    and "extract_photo_id root_url = Inr (Some pid)" and "pid \<noteq> []"
    and "Some pid \<noteq> photo_id (self w) \<or> \<not> avatar_set (self w)"
    and "avatar_url picture root_url = Inr url"
    and "requests_get env url = Inr image_data" and "\<not> ok image_data"
  shows "update_photo env picture w =
     (Inl (Exception (''Couldn'' @ [CHR 0x27] @ ''t download profile picture'')),
      w\<lparr>self := (self w)\<lparr>photo_id := Some pid\<rparr>, effects := effects w @ [HttpGet url]\<rparr>)"
  using update_photo_reupload_raises [OF assms(1-5) reupload_avatar_not_ok [OF assms(6,7)]] .

lemma update_photo_info0_w0:
  "update_photo env_download_fails picture0
     \<lparr>self = puppet0\<lparr>name := Some ''Ada Lovelace (LinkedIn)'', name_set := True,
                      last_info_sync := Some 1000\<rparr>,
      effects = [SetDisplayname ''Ada Lovelace (LinkedIn)'']\<rparr> =
   (Inl (Exception (''Couldn'' @ [CHR 0x27] @ ''t download profile picture'')),
    \<lparr>self = puppet0\<lparr>name := Some ''Ada Lovelace (LinkedIn)'', photo_id := Some ''ABC123'',
                      name_set := True, last_info_sync := Some 1000\<rparr>,
     effects = [SetDisplayname ''Ada Lovelace (LinkedIn)'',
                HttpGet ''https://media.licdn.com/image/ABC123/profile-displayphoto-shrink_100_100'']\<rparr>)"
  using update_photo_not_ok [where picture = picture0 and env = env_download_fails
      and w = "\<lparr>self = puppet0\<lparr>name := Some ''Ada Lovelace (LinkedIn)'', name_set := True,
                      last_info_sync := Some 1000\<rparr>,
                effects = [SetDisplayname ''Ada Lovelace (LinkedIn)'']\<rparr>",
      OF rootUrl_picture0 extract_photo_id_picture0 _ _ avatar_url_picture0
         requests_get_download_fails]
  by (simp add: puppet0_def new_puppet_def)

theorem update_info_source_none_raises_witness:
  "update_info env_download_fails cfg0 None (Some info0) True w0 =
   (Inl AttributeError,
    \<lparr>self = puppet0\<lparr>name := Some ''Ada Lovelace (LinkedIn)'', photo_id := Some ''ABC123'',
                      name_set := True, last_info_sync := Some 1000\<rparr>,
     effects = [SetDisplayname ''Ada Lovelace (LinkedIn)'',
                HttpGet ''https://media.licdn.com/image/ABC123/profile-displayphoto-shrink_100_100'']\<rparr>)"
proof -
  have n: "now env_download_fails = 1000"
    by (simp add: env_download_fails_def env_ok_def)
  have t: "update_info_try env_download_fails cfg0 info0 True
             (w0\<lparr>self := (self w0)\<lparr>last_info_sync := Some 1000\<rparr>\<rparr>) =
           (Inl (Exception (''Couldn'' @ [CHR 0x27] @ ''t download profile picture'')),
            \<lparr>self = puppet0\<lparr>name := Some ''Ada Lovelace (LinkedIn)'', photo_id := Some ''ABC123'',
                              name_set := True, last_info_sync := Some 1000\<rparr>,
             effects = [SetDisplayname ''Ada Lovelace (LinkedIn)'',
                HttpGet ''https://media.licdn.com/image/ABC123/profile-displayphoto-shrink_100_100'']\<rparr>)"
    unfolding update_info_try_def update_name_info0_w0
    by (simp add: picture_of_info0 update_photo_info0_w0)
  show ?thesis
    using update_info_source_none_raises [of env_download_fails cfg0 "hd info0" "tl info0" True w0
        "Exception (''Couldn'' @ [CHR 0x27] @ ''t download profile picture'')"] t n
    by (simp add: info0_def)
qed

subsection \<open>A failed download\<close>

text \<open>
  C5 (the code departs from the claim): the claim is that a failed download leaves
  \<open>photo_id\<close>, \<open>photo_mxc\<close> and \<open>avatar_set\<close> as they were. In the code \<^verbatim>\<open>_update_photo\<close>
  assigns the new photo id before it calls \<^verbatim>\<open>reupload_avatar\<close>: when the response is not
  successful the exception leaves \<^verbatim>\<open>_update_photo\<close>, \<open>photo_mxc\<close> and \<open>avatar_set\<close> keep their
  values, and \<open>photo_id\<close> is already the new id \<open>pid\<close>.
\<close>

theorem update_photo_download_failure:
  assumes "py_get picture ''rootUrl'' PNone = Inr root_url"
    and "extract_photo_id root_url = Inr (Some pid)" and "pid \<noteq> []"
    and "Some pid \<noteq> photo_id (self w) \<or> \<not> avatar_set (self w)"
    and "avatar_url picture root_url = Inr url"
    and "requests_get env url = Inr image_data" and "\<not> ok image_data"
  shows "update_photo env picture w =
     (Inl (Exception (''Couldn'' @ [CHR 0x27] @ ''t download profile picture'')),
      w\<lparr>self := (self w)\<lparr>photo_id := Some pid\<rparr>, effects := effects w @ [HttpGet url]\<rparr>)
    \<and> photo_id (self (snd (update_photo env picture w))) = Some pid
    \<and> photo_mxc (self (snd (update_photo env picture w))) = photo_mxc (self w)
    \<and> avatar_set (self (snd (update_photo env picture w))) = avatar_set (self w)"
  using update_photo_not_ok [OF assms] by simp

theorem update_photo_download_failure_witness:
  "photo_id puppet_synced = Some ''OLD999''
   \<and> update_photo env_download_fails picture0 \<lparr>self = puppet_synced, effects = []\<rparr> =
     (Inl (Exception (''Couldn'' @ [CHR 0x27] @ ''t download profile picture'')),
      \<lparr>self = puppet_synced\<lparr>photo_id := Some ''ABC123''\<rparr>,
       effects = [HttpGet ''https://media.licdn.com/image/ABC123/profile-displayphoto-shrink_100_100'']\<rparr>)
   \<and> photo_id (self (snd (update_photo env_download_fails picture0
         \<lparr>self = puppet_synced, effects = []\<rparr>))) = Some ''ABC123''"
  using update_photo_download_failure [where picture = picture0 and env = env_download_fails
      and w = "\<lparr>self = puppet_synced, effects = []\<rparr>",
      OF rootUrl_picture0 extract_photo_id_picture0 _ _ avatar_url_picture0
         requests_get_download_fails]
  by (simp add: puppet_synced_def puppet0_def new_puppet_def)

text \<open>
  Once the stored photo id is the one of the picture and \<open>avatar_set\<close> is true,
  \<^verbatim>\<open>_update_photo\<close> does nothing, whatever the collaborators would do: after a failed download
  on a puppet whose avatar was set before, the next sync does not try again.
\<close>

lemma update_photo_unchanged:
  assumes "py_get picture ''rootUrl'' PNone = Inr root_url"
    and "extract_photo_id root_url = Inr pid"
    and "photo_id (self w) = pid" and "avatar_set (self w)"
  shows "update_photo env picture w = (Inr False, w)"
  using assms by (simp add: update_photo_def)

lemma avatar_not_retried:
  "update_photo env_ok picture0
     (snd (update_photo env_download_fails picture0 \<lparr>self = puppet_synced, effects = []\<rparr>)) =
   (Inr False,
    \<lparr>self = puppet_synced\<lparr>photo_id := Some ''ABC123''\<rparr>,
     effects = [HttpGet ''https://media.licdn.com/image/ABC123/profile-displayphoto-shrink_100_100'']\<rparr>)"
proof -
  have "update_photo env_download_fails picture0 \<lparr>self = puppet_synced, effects = []\<rparr> =
     (Inl (Exception (''Couldn'' @ [CHR 0x27] @ ''t download profile picture'')),
      \<lparr>self = puppet_synced\<lparr>photo_id := Some ''ABC123''\<rparr>,
       effects = [HttpGet ''https://media.licdn.com/image/ABC123/profile-displayphoto-shrink_100_100'']\<rparr>)"
    using update_photo_not_ok [where picture = picture0 and env = env_download_fails
      and w = "\<lparr>self = puppet_synced, effects = []\<rparr>",
      OF rootUrl_picture0 extract_photo_id_picture0 _ _ avatar_url_picture0
         requests_get_download_fails]
    by (simp add: puppet_synced_def puppet0_def new_puppet_def)
  then show ?thesis
    using update_photo_unchanged [where picture = picture0 and env = env_ok
      and w = "\<lparr>self = puppet_synced\<lparr>photo_id := Some ''ABC123''\<rparr>,
       effects = [HttpGet ''https://media.licdn.com/image/ABC123/profile-displayphoto-shrink_100_100'']\<rparr>",
      OF rootUrl_picture0 extract_photo_id_picture0]
    by (simp add: puppet_synced_def puppet0_def new_puppet_def)
qed

subsection \<open>Calling \<^verbatim>\<open>update_info\<close> twice\<close>

text \<open>What each step changes, read off the state it returns.\<close>

lemma update_name_fields:
  "photo_id (self (snd (update_name env cfg info w))) = photo_id (self w)"
  "avatar_set (self (snd (update_name env cfg info w))) = avatar_set (self w)"
  "get_displayname cfg info = Inr nm \<Longrightarrow> name (self (snd (update_name env cfg info w))) = Some nm"
  by (auto simp: update_name_def Let_def split: sum.splits)

lemma push_avatar_fields:
  "name (self (snd (push_avatar env w))) = name (self w)"
  "name_set (self (snd (push_avatar env w))) = name_set (self w)"
  "photo_id (self (snd (push_avatar env w))) = photo_id (self w)"
  by (simp_all add: push_avatar_def Let_def split: sum.splits)

lemma update_photo_name:
  "name (self (snd (update_photo env picture w))) = name (self w)"
  "name_set (self (snd (update_photo env picture w))) = name_set (self w)"
  by (simp_all add: update_photo_def Let_def push_avatar_fields split: sum.splits prod.splits)

lemma update_photo_photo_id:
  "py_get picture ''rootUrl'' PNone = Inr ru \<Longrightarrow> extract_photo_id ru = Inr pid \<Longrightarrow>
   photo_id (self (snd (update_photo env picture w))) = pid"
  by (simp add: update_photo_def Let_def push_avatar_fields split: sum.splits prod.splits)


lemma update_nameD:
  assumes "update_name env cfg info w = (r, w1)"
  shows "photo_id (self w1) = photo_id (self w)"
    and "avatar_set (self w1) = avatar_set (self w)"
    and "get_displayname cfg info = Inr nm \<Longrightarrow> name (self w1) = Some nm"
  using assms update_name_fields [where env = env and cfg = cfg and info = info and w = w]
  by simp_all

lemma update_photoD:
  assumes "update_photo env picture w = (r, w1)"
  shows "name (self w1) = name (self w)"
    and "name_set (self w1) = name_set (self w)"
    and "py_get picture ''rootUrl'' PNone = Inr ru \<Longrightarrow> extract_photo_id ru = Inr pid \<Longrightarrow>
         photo_id (self w1) = pid"
  using assms update_photo_name [where env = env and picture = picture and w = w]
    update_photo_photo_id [where env = env and picture = picture and w = w and ru = ru and pid = pid]
  by simp_all

lemma update_info_try_name:
  assumes "update_info_try env cfg info ua w = (r, w1)" and "get_displayname cfg info = Inr nm"
  shows "name (self w1) = Some nm"
proof -
  obtain r0 w0 where n: "update_name env cfg info w = (r0, w0)" by (cases "update_name env cfg info w")
  have a: "name (self w0) = Some nm" using update_nameD(3) [OF n assms(2)] .
  show ?thesis
    using assms(1) n a
    by (auto simp: update_info_try_def split: sum.splits if_splits prod.splits
        dest: update_photoD(1))
qed

lemma update_info_try_photo:
  assumes "update_info_try env cfg info True w = (r, w1)"
    and "get_displayname cfg info = Inr nm"
    and "picture_of info = Inr picture"
    and "py_get picture ''rootUrl'' PNone = Inr ru" and "extract_photo_id ru = Inr pid"
    and "\<And>e. r = Inl e \<Longrightarrow> is_exception e"
  shows "photo_id (self w1) = pid"
proof -
  obtain r0 w0 where n: "update_name env cfg info w = (r0, w0)" by (cases "update_name env cfg info w")
  have "\<not> is_exception e" if "r0 = Inl e" for e
    using n assms(2) that by (auto simp: update_name_def Let_def split: if_splits sum.splits)
  moreover have "r = Inl e" if "r0 = Inl e" for e
    using assms(1) n that by (simp add: update_info_try_def)
  ultimately obtain c where r0: "r0 = Inr c"
    using assms(6) by (cases r0) auto
  obtain r2 w2 where p: "update_photo env picture w0 = (r2, w2)" by (cases "update_photo env picture w0")
  have a: "photo_id (self w2) = pid" using update_photoD(3) [OF p assms(4,5)] .
  show ?thesis
    using assms(1,3) n r0 p a
    by (auto simp: update_info_try_def split: sum.splits if_splits)
qed

lemma update_name_stable:
  assumes "name_set (self w)"
    and "\<And>nm. get_displayname cfg info = Inr nm \<Longrightarrow> name (self w) = Some nm"
  shows "update_name env cfg info w = (case get_displayname cfg info of Inl e \<Rightarrow> Inl e | Inr nm \<Rightarrow> Inr False, w)"
  using assms by (auto simp: update_name_def split: sum.splits)

lemma update_photo_stable:
  assumes "avatar_set (self w)"
    and "\<And>ru pid. py_get picture ''rootUrl'' PNone = Inr ru \<Longrightarrow> extract_photo_id ru = Inr pid
           \<Longrightarrow> photo_id (self w) = pid"
  shows "snd (update_photo env picture w) = w \<and> fst (update_photo env picture w) \<noteq> Inr True"
  using assms by (auto simp: update_photo_def split: sum.splits)

lemma update_info_try_stable:
  assumes "name_set (self w)" and "avatar_set (self w)"
    and "\<And>nm. get_displayname cfg info = Inr nm \<Longrightarrow> name (self w) = Some nm"
    and "\<And>nm picture ru pid. ua \<Longrightarrow> get_displayname cfg info = Inr nm \<Longrightarrow> picture_of info = Inr picture \<Longrightarrow>
           py_get picture ''rootUrl'' PNone = Inr ru \<Longrightarrow> extract_photo_id ru = Inr pid
           \<Longrightarrow> photo_id (self w) = pid"
  shows "snd (update_info_try env cfg info ua w) = w"
proof (cases "get_displayname cfg info")
  case (Inl e)
  then show ?thesis by (simp add: update_info_try_def update_name_def)
next
  case (Inr nm)
  have n: "update_name env cfg info w = (Inr False, w)"
    using update_name_stable [where w = w and cfg = cfg and info = info and env = env] assms(1,3) Inr
    by simp
  show ?thesis
  proof (cases "ua")
    case False
    then show ?thesis using n by (simp add: update_info_try_def)
  next
    case True
    show ?thesis
    proof (cases "picture_of info")
      case (Inl e)
      then show ?thesis using n True by (simp add: update_info_try_def)
    next
      case (Inr picture)
      have "snd (update_photo env picture w) = w \<and> fst (update_photo env picture w) \<noteq> Inr True"
        using update_photo_stable [where w = w and picture = picture and env = env] assms(2) assms(4) [OF True \<open>get_displayname cfg info = Inr nm\<close> Inr]
        by blast
      then show ?thesis using n True Inr
        by (cases "update_photo env picture w") (auto simp: update_info_try_def split: sum.splits)
    qed
  qed
qed

lemma update_info_self:
  assumes "update_info env cfg source (Some (kv # kvs)) ua w = (r, w1)"
  shows "self w1 = self (snd (update_info_try env cfg (kv # kvs) ua
            (w\<lparr>self := (self w)\<lparr>last_info_sync := Some (now env)\<rparr>\<rparr>)))"
  using assms
  by (auto simp: update_info_def Let_def split: prod.splits sum.splits option.splits if_splits)

lemma update_info_uncaught:
  assumes "update_info env cfg source (Some (kv # kvs)) ua w = (r, w1)"
    and "update_info_try env cfg (kv # kvs) ua
            (w\<lparr>self := (self w)\<lparr>last_info_sync := Some (now env)\<rparr>\<rparr>) = (Inl e, wt)"
    and "\<not> is_exception e"
  shows "r = Inl e"
  using assms by (auto simp: update_info_def Let_def)

text \<open>
  C6: \<^verbatim>\<open>update_info\<close> is called twice with the same non-empty info (and the same
  \<^verbatim>\<open>update_avatar\<close>), and the first call completes (it returns, or raises the
  \<^verbatim>\<open>AttributeError\<close> of its own handler: it is not cut short by an exception that
  \<^verbatim>\<open>except Exception\<close> does not catch, such as a cancellation) with \<open>name_set\<close> and
  \<open>avatar_set\<close> true. Then the second call changes no field of the puppet but the transient
  timestamp \<open>last_info_sync\<close>, and it calls no collaborator and saves nothing: it adds no
  effect, or only a logged exception (when the info itself makes the \<^verbatim>\<open>try\<close> block raise).
  This holds for every behaviour of the collaborators in either call.
\<close>

theorem update_info_twice:
  assumes first: "update_info env1 cfg source1 (Some info) ua w = (r1, w1)"
    and completes: "\<And>e. r1 = Inl e \<Longrightarrow> is_exception e"
    and nonempty: "info \<noteq> []"
    and flags: "name_set (self w1)" "avatar_set (self w1)"
    and second: "update_info env2 cfg source2 (Some info) ua w1 = (r2, w2)"
  shows "self w2 = (self w1)\<lparr>last_info_sync := Some (now env2)\<rparr> \<and>
         (effects w2 = effects w1 \<or> (\<exists>msg. effects w2 = effects w1 @ [LogException msg]))"
proof -
  obtain kv kvs where info: "info = kv # kvs" using nonempty by (cases info) auto
  define wa where "wa = w\<lparr>self := (self w)\<lparr>last_info_sync := Some (now env1)\<rparr>\<rparr>"
  obtain rt wt where t1: "update_info_try env1 cfg info ua wa = (rt, wt)"
    by (cases "update_info_try env1 cfg info ua wa")
  have s1: "self w1 = self wt"
    using update_info_self [OF first [unfolded info]] t1 by (simp add: info wa_def)
  define wb where "wb = w1\<lparr>self := (self w1)\<lparr>last_info_sync := Some (now env2)\<rparr>\<rparr>"
  have nm: "\<And>nm. get_displayname cfg info = Inr nm \<Longrightarrow> name (self wb) = Some nm"
    using update_info_try_name [OF t1] s1 by (simp add: wb_def)
  have ph: "\<And>nm picture ru pid. ua \<Longrightarrow> get_displayname cfg info = Inr nm \<Longrightarrow>
        picture_of info = Inr picture \<Longrightarrow> py_get picture ''rootUrl'' PNone = Inr ru \<Longrightarrow>
        extract_photo_id ru = Inr pid \<Longrightarrow> photo_id (self wb) = pid"
  proof -
    fix nm picture ru pid
    assume "ua" and g: "get_displayname cfg info = Inr nm" and p: "picture_of info = Inr picture"
      and r: "py_get picture ''rootUrl'' PNone = Inr ru" and e: "extract_photo_id ru = Inr pid"
    then have t: "update_info_try env1 cfg info True wa = (rt, wt)" using t1 by simp
    have c: "is_exception e" if "rt = Inl e" for e
      using update_info_uncaught [OF first [unfolded info], where e = e and wt = wt]
        t1 that completes [where e = e]
      by (auto simp: info wa_def)
    from update_info_try_photo [OF t g p r e c] show "photo_id (self wb) = pid"
      using s1 by (simp add: wb_def)
  qed
  have st: "snd (update_info_try env2 cfg info ua wb) = wb"
    by (rule update_info_try_stable) (use flags nm ph in \<open>simp_all add: wb_def\<close>)
  obtain r where t2: "update_info_try env2 cfg (kv # kvs) ua wb = (r, wb)"
    using st unfolding info by (cases "update_info_try env2 cfg (kv # kvs) ua wb") auto
  show ?thesis
    using second t2 unfolding info update_info_def wb_def
    by (auto simp: Let_def split: sum.splits option.splits if_splits)
qed


lemma update_photo_info0_ok:
  "update_photo env_ok picture0
     \<lparr>self = puppet0\<lparr>name := Some ''Ada Lovelace (LinkedIn)'', name_set := True,
                      last_info_sync := Some 1000\<rparr>,
      effects = [SetDisplayname ''Ada Lovelace (LinkedIn)'']\<rparr> =
   (Inr True,
    \<lparr>self = puppet0\<lparr>name := Some ''Ada Lovelace (LinkedIn)'', photo_id := Some ''ABC123'',
                      photo_mxc := Some ''mxc://example.org/abc'',
                      name_set := True, avatar_set := True, last_info_sync := Some 1000\<rparr>,
     effects = [SetDisplayname ''Ada Lovelace (LinkedIn)'',
                HttpGet ''https://media.licdn.com/image/ABC123/profile-displayphoto-shrink_100_100'',
                UploadMedia ''PNG'' ''image/png'',
                SetAvatarUrl ''mxc://example.org/abc'']\<rparr>)"
  by (simp add: update_photo_def rootUrl_picture0 extract_photo_id_picture0 avatar_url_picture0
      reupload_avatar_def push_avatar_def Let_def env_ok_def puppet0_def new_puppet_def)

lemma update_info_info0_ok:
  "update_info env_ok cfg0 (Some (User ''urn7'')) (Some info0) True w0 =
   (Inr (puppet0\<lparr>name := Some ''Ada Lovelace (LinkedIn)'', photo_id := Some ''ABC123'',
                      photo_mxc := Some ''mxc://example.org/abc'',
                      name_set := True, avatar_set := True, last_info_sync := Some 1000\<rparr>),
    \<lparr>self = puppet0\<lparr>name := Some ''Ada Lovelace (LinkedIn)'', photo_id := Some ''ABC123'',
                      photo_mxc := Some ''mxc://example.org/abc'',
                      name_set := True, avatar_set := True, last_info_sync := Some 1000\<rparr>,
     effects = [SetDisplayname ''Ada Lovelace (LinkedIn)'',
                HttpGet ''https://media.licdn.com/image/ABC123/profile-displayphoto-shrink_100_100'',
                UploadMedia ''PNG'' ''image/png'',
                SetAvatarUrl ''mxc://example.org/abc'',
                Save (puppet0\<lparr>name := Some ''Ada Lovelace (LinkedIn)'', photo_id := Some ''ABC123'',
                      photo_mxc := Some ''mxc://example.org/abc'',
                      name_set := True, avatar_set := True, last_info_sync := Some 1000\<rparr>)]\<rparr>)"
proof -
  have n: "update_name env_ok cfg0 info0
     (w0\<lparr>self := (self w0)\<lparr>last_info_sync := Some 1000\<rparr>\<rparr>) =
     (Inr True,
      \<lparr>self = puppet0\<lparr>name := Some ''Ada Lovelace (LinkedIn)'', name_set := True,
                      last_info_sync := Some 1000\<rparr>,
       effects = [SetDisplayname ''Ada Lovelace (LinkedIn)'']\<rparr>)"
    by (simp add: update_name_def get_displayname_info0 w0_def puppet0_def new_puppet_def
        env_ok_def)
  have t: "update_info_try env_ok cfg0 info0 True
     (w0\<lparr>self := (self w0)\<lparr>last_info_sync := Some 1000\<rparr>\<rparr>) =
     (Inr (),
      \<lparr>self = puppet0\<lparr>name := Some ''Ada Lovelace (LinkedIn)'', photo_id := Some ''ABC123'',
                      photo_mxc := Some ''mxc://example.org/abc'',
                      name_set := True, avatar_set := True, last_info_sync := Some 1000\<rparr>,
     effects = [SetDisplayname ''Ada Lovelace (LinkedIn)'',
                HttpGet ''https://media.licdn.com/image/ABC123/profile-displayphoto-shrink_100_100'',
                UploadMedia ''PNG'' ''image/png'',
                SetAvatarUrl ''mxc://example.org/abc'',
                Save (puppet0\<lparr>name := Some ''Ada Lovelace (LinkedIn)'', photo_id := Some ''ABC123'',
                      photo_mxc := Some ''mxc://example.org/abc'',
                      name_set := True, avatar_set := True, last_info_sync := Some 1000\<rparr>)]\<rparr>)"
    unfolding update_info_try_def n
    by (simp add: picture_of_info0 update_photo_info0_ok) (simp add: env_ok_def)
  have "now env_ok = 1000" by (simp add: env_ok_def)
  then show ?thesis
    using t by (simp add: update_info_def info0_def Let_def)
qed

theorem update_info_twice_witness:
  "update_info env_ok cfg0 (Some (User ''urn7'')) (Some info0) True w0 =
     (Inr (self (snd (update_info env_ok cfg0 (Some (User ''urn7'')) (Some info0) True w0))),
      snd (update_info env_ok cfg0 (Some (User ''urn7'')) (Some info0) True w0))
   \<and> name_set (self (snd (update_info env_ok cfg0 (Some (User ''urn7'')) (Some info0) True w0)))
   \<and> avatar_set (self (snd (update_info env_ok cfg0 (Some (User ''urn7'')) (Some info0) True w0)))
   \<and> self (snd (update_info (env_ok\<lparr>now := 2000\<rparr>) cfg0 (Some (User ''urn7'')) (Some info0) True
             (snd (update_info env_ok cfg0 (Some (User ''urn7'')) (Some info0) True w0)))) =
       puppet0\<lparr>name := Some ''Ada Lovelace (LinkedIn)'', photo_id := Some ''ABC123'',
                      photo_mxc := Some ''mxc://example.org/abc'',
                      name_set := True, avatar_set := True, last_info_sync := Some 2000\<rparr>"
  using update_info_twice [where ?env1.0 = env_ok and cfg = cfg0 and ?source1.0 = "Some (User ''urn7'')"
      and info = info0 and ua = True and w = w0
      and ?w1.0 = "snd (update_info env_ok cfg0 (Some (User ''urn7'')) (Some info0) True w0)"
      and ?r1.0 = "fst (update_info env_ok cfg0 (Some (User ''urn7'')) (Some info0) True w0)"
      and ?env2.0 = "env_ok\<lparr>now := 2000\<rparr>" and ?source2.0 = "Some (User ''urn7'')"
      and ?r2.0 = "fst (update_info (env_ok\<lparr>now := 2000\<rparr>) cfg0 (Some (User ''urn7'')) (Some info0) True
             (snd (update_info env_ok cfg0 (Some (User ''urn7'')) (Some info0) True w0)))"
      and ?w2.0 = "snd (update_info (env_ok\<lparr>now := 2000\<rparr>) cfg0 (Some (User ''urn7'')) (Some info0) True
             (snd (update_info env_ok cfg0 (Some (User ''urn7'')) (Some info0) True w0)))"]
  by (simp add: update_info_info0_ok) (simp add: info0_def puppet0_def new_puppet_def)

subsection \<open>\<^verbatim>\<open>get_by_mxid\<close>\<close>

text \<open>
  C9: for an identifier that the username template does not parse, \<^verbatim>\<open>get_by_mxid\<close> returns
  \<^verbatim>\<open>None\<close> and the registry is as it was: no instance, no cache entry and no row is added,
  and no cache lookup or store query is recorded.
\<close>

theorem get_by_mxid_unparsed:
  "get_id_from_mxid cfg mxid = None \<Longrightarrow>
   get_by_mxid st cfg mxid create reg = (Inr None, reg)"
  by (simp add: get_by_mxid_def)

theorem get_by_mxid_unparsed_witness:
  "get_id_from_mxid cfg0 ''@someone:other.org'' = None
   \<and> get_by_mxid store_ok cfg0 ''@someone:other.org'' True registry0 = (Inr None, registry0)
   \<and> queries registry0 = []"
proof -
  have p: "get_id_from_mxid cfg0 ''@someone:other.org'' = None"
    by (simp add: get_id_from_mxid_def parse_def mxid_template_def cfg0_def)
  show ?thesis
    using get_by_mxid_unparsed [OF p, of store_ok True registry0] p
    by (simp add: registry0_def)
qed

text \<open>An identifier that the template parses is looked up, and created when missing.\<close>

lemma get_by_mxid_parsed:
  "get_by_mxid store_ok cfg0 ''@linkedin_urn42:example.org'' True registry0 =
   (Inr (Some 0),
    \<lparr>instances = [new_puppet ''urn42''],
     by_li_member_urn = [''urn42'' \<mapsto> 0], by_custom_mxid = Map.empty,
     table = [new_puppet ''urn42''],
     queries = [CacheLookup ''urn42'', DbLoad ''urn42'', DbInsert (new_puppet ''urn42'')]\<rparr>)"
proof -
  have "get_id_from_mxid cfg0 ''@linkedin_urn42:example.org'' = Some ''urn42''"
    by (simp add: get_id_from_mxid_def parse_def mxid_template_def cfg0_def py_slice_def)
  then show ?thesis
    by (simp add: get_by_mxid_def get_by_li_member_urn_def registry0_def store_ok_def
        add_to_cache_def new_puppet_def Let_def)
qed

subsection \<open>Concurrent callers\<close>


lemma inv_lockD:
  assumes "inv_lock s" "lock_holder s k = Some h"
  shows "h < length (callers s)" "c_arg (callers s ! h) = k" "holding (c_pc (callers s ! h))"
    "by_li_member_urn (registry_of s) k = None"
  using assms unfolding inv_lock_def by blast+



lemma not_holder:
  assumes "inv_lock s" "i < length (callers s)" "\<not> holding (c_pc (callers s ! i))"
  shows "lock_holder s k \<noteq> Some i"
  using assms inv_lockD(3) by blast



















































lemmas steps =
  run_def start_def step_caller_def step_get_by_li_member_urn_def step_get_by_custom_mxid_def
  by_li_member_urn_calls_def add_to_cache_def new_puppet_def Let_def








text \<open>
  \<^verbatim>\<open>get_all_with_custom_mxid\<close> takes no lock: while a call of \<^verbatim>\<open>get_by_li_member_urn\<close> loads
  the row, the generator caches and yields its own instance 0 of the key, and the call then
  caches and returns instance 1.
\<close>

lemma enumeration_race:
  "map c_pc (callers (run store_ok sched_enumeration (start [row_custom] calls_enumeration))) =
     [Returned (Some 1), Enumerated [0]]
   \<and> instances_of ''k'' (run store_ok sched_enumeration (start [row_custom] calls_enumeration)) =
     [row_custom, row_custom]
   \<and> by_li_member_urn (registry_of
         (run store_ok sched_enumeration (start [row_custom] calls_enumeration))) ''k'' = Some 1"
  by (simp add: steps step_get_all_with_custom_mxid_def store_ok_def instances_of_def
      sched_enumeration_def calls_enumeration_def row_custom_def upt_rec)

end
